theory Spec2Isabelle
  imports Complex_Main "HOL-Library.Log_Nat"
begin

section \<open>Numbers and text\<close>

text \<open>
  The script computes with JavaScript numbers and prints them into template strings.
  A number is modelled as the real that it denotes; NaN and the signed zero are outside
  the model, and the places where the script can produce an infinity are written out.
  The product in \<open>pct\<close>, whose digits are printed, is the product of binary64: the exact
  one followed by the rounding to binary64. The comparison of two scores uses their
  exact difference, whose sign is the sign of the binary64 difference. The arithmetic
  of the faces bar and of the frame rate is exact; of its results only bounds are used,
  and the rounding keeps them. Strings are byte strings.
\<close>

definition digit_char :: "nat \<Rightarrow> char" where
  "digit_char d = ''0123456789'' ! (d mod 10)"

fun str_of_nat :: "nat \<Rightarrow> string" where
  "str_of_nat n =
     (if n < 10 then [digit_char n] else str_of_nat (n div 10) @ [digit_char (n mod 10)])"

declare str_of_nat.simps [simp del]

text \<open>
  \<open>Number::toString\<close>: an integral value below \<open>10^21\<close> prints as its decimal digits.
  Any other value prints as the shortest digit string that reads back as the same
  binary64, which depends on the floating-point representation; that part is the
  parameter \<open>numstr\<close> of the model.
\<close>

definition num_to_string :: "(real \<Rightarrow> string) \<Rightarrow> real \<Rightarrow> string" where
  "num_to_string numstr x =
     (if x = of_int \<lfloor>x\<rfloor> \<and> \<bar>x\<bar> < 10 ^ 21
      then (if x < 0 then ''-'' else '''') @ str_of_nat (nat \<lfloor>\<bar>x\<bar>\<rfloor>)
      else numstr x)"

text \<open>
  \<open>Number.prototype.toFixed(f)\<close>: the integer \<open>n\<close> for which \<open>n / 10^f\<close> is nearest to
  the value (the larger one on a tie), printed with at least \<open>f + 1\<close> digits and a
  point before the last \<open>f\<close>.
\<close>

definition fixed_digits :: "nat \<Rightarrow> nat \<Rightarrow> string" where
  "fixed_digits f n =
     (let m = str_of_nat n;
          m = replicate (f + 1 - length m) (CHR ''0'') @ m;
          k = length m
      in if f = 0 then m else take (k - f) m @ ''.'' @ drop (k - f) m)"

definition toFixed :: "(real \<Rightarrow> string) \<Rightarrow> nat \<Rightarrow> real \<Rightarrow> string" where
  "toFixed numstr f x =
     (let s = (if x < 0 then ''-'' else '''');
          x = (if x < 0 then - x else x)
      in s @ (if x \<ge> 10 ^ 21 then num_to_string numstr x
              else fixed_digits f (nat \<lfloor>x * 10 ^ f + 1 / 2\<rfloor>)))"

text \<open>
  Binary64. A value other than zero with binary exponent \<open>e\<close> (\<open>expo\<close>, the floor of the
  logarithm to base 2 of its absolute value) lies between two neighbouring multiples of
  \<open>2 ^ (e - 52)\<close>, or of \<open>2 ^ (- 1074)\<close> when it is below the normal range; an
  arithmetic operation returns the nearer of the two, and of two equally near ones the
  even multiple. A result of absolute value \<open>2 ^ 1024\<close> or more is an infinity.
\<close>

definition expo :: "real \<Rightarrow> int" where
  "expo x =
     (if 1 \<le> \<bar>x\<bar> then bitlen \<lfloor>\<bar>x\<bar>\<rfloor> - 1 else - bitlen (\<lceil>1 / \<bar>x\<bar>\<rceil> - 1))"

definition round_even :: "real \<Rightarrow> int" where
  "round_even r =
     (let n = \<lfloor>r\<rfloor>;
          d = r - of_int n
      in if d < 1 / 2 then n
         else if 1 / 2 < d then n + 1
         else if even n then n else n + 1)"

definition ulp64 :: "real \<Rightarrow> real" where
  "ulp64 x = 2 powi (max (expo x) (- 1022) - 52)"

definition round64 :: "real \<Rightarrow> real" where
  "round64 x = (if x = 0 then 0 else of_int (round_even (x / ulp64 x)) * ulp64 x)"

text \<open>
  The helpers of the script (lines 25 and 26). \<open>v * 100\<close> is the product of binary64;
  \<open>toFixed\<close> of an infinity is its name.
\<close>

definition pct :: "(real \<Rightarrow> string) \<Rightarrow> real \<Rightarrow> string" where
  "pct numstr v =
     (let p = round64 (v * 100)
      in if 2 ^ 1024 \<le> p then ''Infinity%''
         else if p \<le> - (2 ^ 1024) then ''-Infinity%''
         else toFixed numstr 1 p @ ''%'')"

definition clamp01 :: "real \<Rightarrow> real" where
  "clamp01 v = max 0 (min 1 v)"

text \<open>
  \<open>Array.prototype.sort\<close> with a comparator is a stable sort: \<open>a\<close> stays before \<open>b\<close>
  unless the comparator is positive on \<open>(a, b)\<close>.
\<close>

fun insert_by :: "('a \<Rightarrow> 'a \<Rightarrow> real) \<Rightarrow> 'a \<Rightarrow> 'a list \<Rightarrow> 'a list" where
  "insert_by cmp x [] = [x]"
| "insert_by cmp x (y # ys) =
     (if cmp x y \<le> 0 then x # y # ys else y # insert_by cmp x ys)"

definition js_sort :: "('a \<Rightarrow> 'a \<Rightarrow> real) \<Rightarrow> 'a list \<Rightarrow> 'a list" where
  "js_sort cmp xs = foldr (insert_by cmp) xs []"

definition em_dash :: string where
  "em_dash = [CHR 0xE2, CHR 0x80, CHR 0x94]"

section \<open>Data\<close>

subsection \<open>What the detector returns\<close>

text \<open>
  A detection result has a list of faces (\<open>result.face\<close>, which the script guards with
  \<open>|| []\<close>), a face has a list of emotions with scores (\<open>faces[0]?.emotion || []\<close>).
  Everything else in a face is read by the library's drawing only and is kept as one
  opaque field.
\<close>

record emotion_score =
  emotion :: string
  score :: real

record face_result =
  face_emotion :: "emotion_score list option"
  face_geometry :: nat

record detect_result =
  face :: "face_result list option"

subsection \<open>Devices, streams and the page\<close>

record device_info =
  kind :: string
  deviceId :: string
  label :: string

record media_stream =
  stream_id :: nat
  tracks :: "nat list"

record option_el =
  opt_value :: "string option"
  opt_text :: string
  opt_disabled :: bool

record select_el =
  sel_options :: "option_el list"
  sel_index :: "nat option"

datatype emotion_node =
    Muted string
  | EmotionRow string string string

text \<open>
  What a canvas shows is the list of the drawing calls made on it since it was last
  emptied. \<open>DrawCanvas\<close> and \<open>DrawFace\<close> are the two calls into the library's drawing,
  \<open>DrawVideo\<close> and \<open>DrawOverlay\<close> are the two \<open>drawImage\<close> calls of the snapshot.
\<close>

datatype draw_op =
    DrawCanvas
  | DrawFace "face_result list option"
  | ClearedRect real real real real
  | DrawVideo "media_stream option" nat nat nat nat
  | DrawOverlay nat nat "draw_op list" nat nat

datatype video_constraint =
    AnyVideo
  | ExactDevice string
  | UserFacing

text \<open>The calls that leave the page: storage, the library, dialogs, the console, downloads.\<close>

datatype effect =
    StorageGet string
  | StorageSet string string
  | HumanLoad
  | HumanWarmup
  | HumanDetect "media_stream option"
  | GetUserMedia video_constraint
  | EnumerateDevices
  | Alert string
  | ConsoleError string
  | ConsoleWarn string
  | Download string string nat nat "draw_op list"

text \<open>Where the asynchronous \<open>init\<close> is suspended.\<close>

datatype init_wait =
    AwaitLoad
  | AwaitWarmup
  | AwaitPermission
  | AwaitDevices
  | InitReturned

text \<open>
  The state: the variables of the script (line 21), the properties of the page's
  elements that the script reads or writes (lines 2 to 19; the page provides every
  element, the script dereferences them unguarded), the browser's side (storage, the
  scheduled animation frames, the tracks that are live), the asynchronous functions
  suspended at an \<open>await\<close>, and the log of effects. The variable \<open>lastFrameTime\<close> is
  written once and never read, and \<open>human\<close> is the library; neither is in the state.
\<close>

record state =
  running :: bool
  rafId :: "nat option"
  stream :: "media_stream option"
  video_srcObject :: "media_stream option"
  video_transform :: string
  overlay_width :: nat
  overlay_height :: nat
  overlay_content :: "draw_op list"
  overlay_transform :: string
  moodBadge :: string
  cameraSelect :: select_el
  mirrorToggle :: bool
  topMood :: string
  topConf :: string
  fpsBar :: string
  fpsText :: string
  facesBar :: string
  facesText :: string
  emotionList :: "emotion_node list"
  data_theme :: "string option"
  localStorage :: "string \<rightharpoonup> string"
  raf_counter :: nat
  raf_pending :: "nat set"
  live_tracks :: "nat set"
  init_at :: init_wait
  start_at_gum :: nat
  start_at_play :: nat
  loop_at_detect :: "real list"
  effects :: "effect list"

definition log :: "effect \<Rightarrow> state \<Rightarrow> state" where
  "log e s = s\<lparr>effects := effects s @ [e]\<rparr>"

section \<open>The browser\<close>

definition requestAnimationFrame :: "state \<Rightarrow> nat \<times> state" where
  "requestAnimationFrame s =
     (let h = raf_counter s + 1
      in (h, s\<lparr>raf_counter := h, raf_pending := insert h (raf_pending s)\<rparr>))"

definition cancelAnimationFrame :: "nat \<Rightarrow> state \<Rightarrow> state" where
  "cancelAnimationFrame h s = s\<lparr>raf_pending := raf_pending s - {h}\<rparr>"

definition track_stop :: "nat \<Rightarrow> state \<Rightarrow> state" where
  "track_stop t s = s\<lparr>live_tracks := live_tracks s - {t}\<rparr>"

definition stop_tracks :: "media_stream \<Rightarrow> state \<Rightarrow> state" where
  "stop_tracks ms s = foldl (\<lambda>s t. track_stop t s) s (tracks ms)"

text \<open>
  \<open>clearRect\<close> on a canvas of the given size: a rectangle that covers the canvas
  empties it, any other is remembered as one more call.
\<close>

definition clearRect ::
  "real \<Rightarrow> real \<Rightarrow> real \<Rightarrow> real \<Rightarrow> nat \<Rightarrow> nat \<Rightarrow> draw_op list \<Rightarrow> draw_op list" where
  "clearRect x y w h cw ch content =
     (if min x (x + w) \<le> 0 \<and> real cw \<le> max x (x + w) \<and>
         min y (y + h) \<le> 0 \<and> real ch \<le> max y (y + h)
      then [] else content @ [ClearedRect x y w h])"

text \<open>\<open>select.value\<close>: the value of the selected option, its text when it has no value
  attribute, the empty string when nothing is selected.\<close>

definition select_value :: "select_el \<Rightarrow> string" where
  "select_value sel =
     (case sel_index sel of
        None \<Rightarrow> ''''
      | Some i \<Rightarrow>
          (if i < length (sel_options sel)
           then (case opt_value (sel_options sel ! i) of
                   Some v \<Rightarrow> v
                 | None \<Rightarrow> opt_text (sel_options sel ! i))
           else ''''))"

text \<open>\<open>appendChild\<close> of an option: a select with nothing selected selects the first
  option that is not disabled.\<close>

definition appendOption :: "option_el \<Rightarrow> select_el \<Rightarrow> select_el" where
  "appendOption opt sel =
     \<lparr>sel_options = sel_options sel @ [opt],
      sel_index = (if sel_index sel = None \<and> \<not> opt_disabled opt
                   then Some (length (sel_options sel)) else sel_index sel)\<rparr>"

section \<open>The script\<close>

subsection \<open>\<open>stopCamera\<close> (lines 109 to 115)\<close>

text \<open>\<open>if (rafId)\<close> and \<open>if (stream)\<close> are truthiness tests: \<open>null\<close> and the number zero
  fail the first, \<open>null\<close> and \<open>undefined\<close> the second.\<close>

definition stopCamera :: "state \<Rightarrow> state" where
  "stopCamera s =
     (let s = s\<lparr>running := False\<rparr>;
          s = (case rafId s of
                 Some h \<Rightarrow> if h \<noteq> 0 then cancelAnimationFrame h s else s
               | None \<Rightarrow> s);
          s = s\<lparr>rafId := None\<rparr>;
          s = (case stream s of Some ms \<Rightarrow> stop_tracks ms s | None \<Rightarrow> s)
      in s\<lparr>stream := None\<rparr>)"

subsection \<open>\<open>applyMirror\<close> (lines 149 to 154)\<close>

definition applyMirror :: "state \<Rightarrow> state" where
  "applyMirror s =
     (let mirrored = mirrorToggle s;
          scale = (if mirrored then ''scaleX(-1)'' else ''scaleX(1)'')
      in s\<lparr>video_transform := scale, overlay_transform := scale\<rparr>)"

subsection \<open>\<open>renderEmotions\<close> (lines 129 to 147)\<close>

definition emotion_row :: "(real \<Rightarrow> string) \<Rightarrow> emotion_score \<Rightarrow> emotion_node" where
  "emotion_row numstr e = EmotionRow (emotion e) (pct numstr (score e)) (pct numstr (score e))"

definition renderEmotions ::
  "(real \<Rightarrow> string) \<Rightarrow> emotion_score list option \<Rightarrow> state \<Rightarrow> state" where
  "renderEmotions numstr list s =
     (let s = s\<lparr>emotionList := []\<rparr>
      in case list of
           None \<Rightarrow> s\<lparr>emotionList := [Muted ''No face detected.'']\<rparr>
         | Some es \<Rightarrow>
             if length es = 0 then s\<lparr>emotionList := [Muted ''No face detected.'']\<rparr>
             else foldl (\<lambda>s e. s\<lparr>emotionList := emotionList s @ [emotion_row numstr e]\<rparr>) s es)"

subsection \<open>\<open>loop\<close> (lines 156 to 194)\<close>

text \<open>
  The function is asynchronous with one \<open>await\<close>. \<open>loop\<close> is the part that runs when
  the function is called, up to the call of the detector, where it is suspended with
  its local \<open>t0\<close>; \<open>loop_resume\<close> is the part that runs when the detector has answered.
  Other code runs in between.
\<close>

definition loop :: "real \<Rightarrow> state \<Rightarrow> state" where
  "loop now s =
     (if \<not> running s then s
      else (let t0 = now;
                s = log (HumanDetect (video_srcObject s)) s
            in s\<lparr>loop_at_detect := loop_at_detect s @ [t0]\<rparr>))"

definition draw_overlays :: "detect_result \<Rightarrow> state \<Rightarrow> state" where
  "draw_overlays result s =
     (let c = clearRect 0 0 (real (overlay_width s)) (real (overlay_height s))
                (overlay_width s) (overlay_height s) (overlay_content s);
          c = c @ [DrawCanvas];
          c = c @ [DrawFace (face result)]
      in s\<lparr>overlay_content := c\<rparr>)"

definition summarize :: "(real \<Rightarrow> string) \<Rightarrow> detect_result \<Rightarrow> state \<Rightarrow> state" where
  "summarize numstr result s =
     (let faces = (case face result of Some fs \<Rightarrow> fs | None \<Rightarrow> []);
          s = s\<lparr>facesText := str_of_nat (length faces)\<rparr>;
          s = s\<lparr>facesBar :=
                 num_to_string numstr (min 100 (real (length faces) / 5 * 100)) @ ''%''\<rparr>;
          emotions = (case faces of
                        [] \<Rightarrow> []
                      | f # _ \<Rightarrow> (case face_emotion f of Some es \<Rightarrow> es | None \<Rightarrow> []));
          s = renderEmotions numstr (Some emotions) s
      in if length emotions \<noteq> 0
         then (let top = hd (js_sort (\<lambda>a b. score b - score a) emotions)
               in s\<lparr>moodBadge :=
                       ''Mood: '' @ emotion top @ '' ('' @ pct numstr (score top) @ '')'',
                     topMood := emotion top,
                     topConf := pct numstr (clamp01 (score top))\<rparr>)
         else s\<lparr>moodBadge := ''Mood: '' @ em_dash,
                 topMood := em_dash,
                 topConf := ''0%''\<rparr>)"

text \<open>A frame duration of zero makes \<open>fps\<close> infinite: \<open>toFixed\<close> prints \<open>Infinity\<close> and
  \<open>Math.min\<close> gives 100.\<close>

definition fps_update :: "(real \<Rightarrow> string) \<Rightarrow> real \<Rightarrow> real \<Rightarrow> state \<Rightarrow> state" where
  "fps_update numstr t0 now s =
     (let dt = now - t0
      in if dt = 0
         then s\<lparr>fpsText := ''Infinity fps'',
                 fpsBar := num_to_string numstr 100 @ ''%''\<rparr>
         else (let fps = 1000 / dt
               in s\<lparr>fpsText := toFixed numstr 1 fps @ '' fps'',
                     fpsBar := num_to_string numstr (min 100 (fps / 60 * 100)) @ ''%''\<rparr>))"

definition loop_resume ::
  "(real \<Rightarrow> string) \<Rightarrow> real \<Rightarrow> detect_result \<Rightarrow> real \<Rightarrow> state \<Rightarrow> state" where
  "loop_resume numstr t0 result now s =
     (let s = draw_overlays result s;
          s = summarize numstr result s;
          s = fps_update numstr t0 now s;
          (h, s) = requestAnimationFrame s
      in s\<lparr>rafId := Some h\<rparr>)"

subsection \<open>\<open>listCameras\<close> (lines 65 to 84)\<close>

text \<open>
  One \<open>await\<close>: \<open>listCameras\<close> runs up to the request for the device list,
  \<open>listCameras_resume\<close> when the request is settled. Only \<open>init\<close> calls the function,
  and waits for it, so the suspension is recorded as the place where \<open>init\<close> is.
\<close>

definition camera_option :: "nat \<Rightarrow> device_info \<Rightarrow> option_el" where
  "camera_option i c =
     \<lparr>opt_value = Some (deviceId c),
      opt_text = (if label c \<noteq> '''' then label c else ''Camera '' @ str_of_nat (i + 1)),
      opt_disabled = False\<rparr>"

text \<open>\<open>cams.forEach((c, i) => ...)\<close>, from index \<open>i\<close> on.\<close>

fun append_cameras :: "nat \<Rightarrow> device_info list \<Rightarrow> select_el \<Rightarrow> select_el" where
  "append_cameras i [] sel = sel"
| "append_cameras i (c # cs) sel =
     append_cameras (i + 1) cs (appendOption (camera_option i c) sel)"

definition listCameras :: "state \<Rightarrow> state" where
  "listCameras s = (log EnumerateDevices s)\<lparr>init_at := AwaitDevices\<rparr>"

definition listCameras_resume :: "device_info list option \<Rightarrow> state \<Rightarrow> state" where
  "listCameras_resume settled s =
     (case settled of
        None \<Rightarrow> log (ConsoleWarn ''enumerateDevices failed'') s
      | Some devices \<Rightarrow>
          (let cams = filter (\<lambda>d. kind d = ''videoinput'') devices;
               s = s\<lparr>cameraSelect := \<lparr>sel_options = [], sel_index = None\<rparr>\<rparr>
           in if length cams = 0
              then (let opt = \<lparr>opt_value = None, opt_text = ''No camera found'',
                                opt_disabled = True\<rparr>
                    in s\<lparr>cameraSelect := appendOption opt (cameraSelect s)\<rparr>)
              else s\<lparr>cameraSelect := append_cameras 0 cams (cameraSelect s)\<rparr>))"

subsection \<open>\<open>startCamera\<close> (lines 86 to 107)\<close>

text \<open>
  Two \<open>await\<close>s: \<open>startCamera\<close> runs up to the request for a stream,
  \<open>startCamera_stream\<close> when that request is settled, \<open>startCamera_play\<close> when
  \<open>play()\<close> is. Setting the width or the height of a canvas empties it.
\<close>

definition camera_error :: "state \<Rightarrow> state" where
  "camera_error s =
     log (Alert ''Unable to access camera. Check permissions and that no other app is using it.'')
       (log (ConsoleError ''Camera error:'') s)"

definition startCamera :: "state \<Rightarrow> state" where
  "startCamera s =
     (let s = stopCamera s;
          deviceId = select_value (cameraSelect s);
          s = log (GetUserMedia (if deviceId \<noteq> '''' then ExactDevice deviceId
                                 else UserFacing)) s
      in s\<lparr>start_at_gum := start_at_gum s + 1\<rparr>)"

definition startCamera_stream :: "media_stream option \<Rightarrow> state \<Rightarrow> state" where
  "startCamera_stream settled s =
     (case settled of
        None \<Rightarrow> camera_error s
      | Some ms \<Rightarrow>
          (let s = s\<lparr>stream := Some ms\<rparr>;
               s = s\<lparr>video_srcObject := stream s\<rparr>
           in s\<lparr>start_at_play := start_at_play s + 1\<rparr>))"

definition startCamera_play :: "bool \<Rightarrow> nat \<Rightarrow> nat \<Rightarrow> real \<Rightarrow> state \<Rightarrow> state" where
  "startCamera_play played videoWidth videoHeight now s =
     (if \<not> played then camera_error s
      else (let s = s\<lparr>overlay_width := (if videoWidth \<noteq> 0 then videoWidth else 1280),
                      overlay_content := []\<rparr>;
                s = s\<lparr>overlay_height := (if videoHeight \<noteq> 0 then videoHeight else 720),
                      overlay_content := []\<rparr>;
                s = applyMirror s;
                s = s\<lparr>running := True\<rparr>
            in loop now s))"

subsection \<open>\<open>snapshot\<close> (lines 117 to 127)\<close>

text \<open>
  The function guards against a page without the video or without the overlay, so it
  takes the two element references as the result of the lookup: \<open>None\<close> is \<open>null\<close>.
  The download is the click on a fresh anchor whose target is the data URL of the
  fresh canvas.
\<close>

record video_el =
  v_srcObject :: "media_stream option"

record canvas_el =
  c_width :: nat
  c_height :: nat
  c_content :: "draw_op list"

definition els_video :: "state \<Rightarrow> video_el option" where
  "els_video s = Some \<lparr>v_srcObject = video_srcObject s\<rparr>"

definition els_overlay :: "state \<Rightarrow> canvas_el option" where
  "els_overlay s =
     Some \<lparr>c_width = overlay_width s, c_height = overlay_height s,
           c_content = overlay_content s\<rparr>"

definition snapshot ::
  "video_el option \<Rightarrow> canvas_el option \<Rightarrow> nat \<Rightarrow> state \<Rightarrow> state" where
  "snapshot video overlay date_now s =
     (case (video, overlay) of
        (Some v, Some ov) \<Rightarrow>
          (let c = \<lparr>c_width = 300, c_height = 150, c_content = []\<rparr>;
               c = c\<lparr>c_width := c_width ov, c_content := []\<rparr>;
               c = c\<lparr>c_height := c_height ov, c_content := []\<rparr>;
               c = c\<lparr>c_content := c_content c @
                       [DrawVideo (v_srcObject v) 0 0 (c_width c) (c_height c)]\<rparr>;
               c = c\<lparr>c_content := c_content c @
                       [DrawOverlay (c_width ov) (c_height ov) (c_content ov) 0 0]\<rparr>
           in log (Download (''mood-'' @ str_of_nat date_now @ ''.png'') ''image/png''
                     (c_width c) (c_height c) (c_content c)) s)
      | _ \<Rightarrow> s)"

subsection \<open>\<open>init\<close> (lines 29 to 63)\<close>

definition init :: "state \<Rightarrow> state" where
  "init s =
     (let s = log (StorageGet ''theme'') s;
          savedTheme = localStorage s ''theme'';
          s = (case savedTheme of
                 Some t \<Rightarrow> if t \<noteq> '''' then s\<lparr>data_theme := Some t\<rparr> else s
               | None \<Rightarrow> s);
          s = log HumanLoad s
      in s\<lparr>init_at := AwaitLoad\<rparr>)"

definition init_failed :: "state \<Rightarrow> state" where
  "init_failed s =
     (log (Alert ''Failed to load AI models. Check your internet and refresh.'')
        (log (ConsoleError ''Model load error:'') s))\<lparr>init_at := InitReturned\<rparr>"

definition init_load :: "bool \<Rightarrow> state \<Rightarrow> state" where
  "init_load loaded s =
     (if loaded then (log HumanWarmup s)\<lparr>init_at := AwaitWarmup\<rparr> else init_failed s)"

definition init_warmup :: "bool \<Rightarrow> state \<Rightarrow> state" where
  "init_warmup warm s =
     (if warm then (log (GetUserMedia AnyVideo) s)\<lparr>init_at := AwaitPermission\<rparr>
      else init_failed s)"

definition init_permission :: "media_stream option \<Rightarrow> state \<Rightarrow> state" where
  "init_permission settled s =
     (let s = (case settled of Some tmp \<Rightarrow> stop_tracks tmp s | None \<Rightarrow> s)
      in listCameras s)"

definition init_devices :: "device_info list option \<Rightarrow> state \<Rightarrow> state" where
  "init_devices settled s = (listCameras_resume settled s)\<lparr>init_at := InitReturned\<rparr>"

subsection \<open>The handlers (lines 196 to 221)\<close>

definition cameraSelect_change :: "state \<Rightarrow> state" where
  "cameraSelect_change s = (if stream s \<noteq> None then startCamera s else s)"

definition themeToggle_click :: "state \<Rightarrow> state" where
  "themeToggle_click s =
     (let cur = data_theme s;
          next = (if cur = Some ''dark'' then ''light'' else ''dark'');
          s = s\<lparr>data_theme := Some next\<rparr>;
          s = s\<lparr>localStorage := (localStorage s)(''theme'' \<mapsto> next)\<rparr>
      in log (StorageSet ''theme'' next) s)"

definition lower_char :: "char \<Rightarrow> char" where
  "lower_char c =
     (case map_of (zip ''ABCDEFGHIJKLMNOPQRSTUVWXYZ'' ''abcdefghijklmnopqrstuvwxyz'') c of
        Some d \<Rightarrow> d
      | None \<Rightarrow> c)"

definition toLowerCase :: "string \<Rightarrow> string" where
  "toLowerCase k = map lower_char k"

definition keydown :: "string \<Rightarrow> nat \<Rightarrow> state \<Rightarrow> state" where
  "keydown e_key date_now s =
     (let key = toLowerCase e_key;
          s = (if key = ''s'' then startCamera s else s);
          s = (if key = ''x'' then stopCamera s else s);
          s = (if key = ''c'' then snapshot (els_video s) (els_overlay s) date_now s else s);
          s = (if key = ''m'' then applyMirror (s\<lparr>mirrorToggle := \<not> mirrorToggle s\<rparr>) else s);
          s = (if key = ''t'' then themeToggle_click s else s)
      in s)"

section \<open>The program as a transition system\<close>

text \<open>
  JavaScript runs one handler or one continuation at a time, each to its next \<open>await\<close>
  or to its end. An event is what starts such a run: the user acts, a promise that a
  suspended function waits for is settled (with \<open>None\<close> or \<open>False\<close> for a rejection), or
  a scheduled animation frame is due. Events that read a clock carry its value.
  An event that nothing waits for changes nothing.
\<close>

datatype event =
    LoadSettled bool
  | WarmupSettled bool
  | PermissionSettled "media_stream option"
  | DevicesSettled "device_info list option"
  | StartClicked
  | StopClicked
  | SnapClicked nat
  | CameraChanged nat
  | MirrorChanged
  | ThemeClicked
  | KeyPressed string nat
  | StreamSettled "media_stream option"
  | PlaySettled bool nat nat real
  | DetectSettled nat "detect_result option" real
  | FrameDue nat real

text \<open>A stream that is handed out has its tracks live.\<close>

definition grant :: "media_stream option \<Rightarrow> state \<Rightarrow> state" where
  "grant settled s =
     (case settled of
        Some ms \<Rightarrow> s\<lparr>live_tracks := live_tracks s \<union> set (tracks ms)\<rparr>
      | None \<Rightarrow> s)"

fun step :: "(real \<Rightarrow> string) \<Rightarrow> event \<Rightarrow> state \<Rightarrow> state" where
  "step numstr (LoadSettled loaded) s =
     (if init_at s = AwaitLoad then init_load loaded s else s)"
| "step numstr (WarmupSettled warm) s =
     (if init_at s = AwaitWarmup then init_warmup warm s else s)"
| "step numstr (PermissionSettled settled) s =
     (if init_at s = AwaitPermission then init_permission settled (grant settled s) else s)"
| "step numstr (DevicesSettled settled) s =
     (if init_at s = AwaitDevices then init_devices settled s else s)"
| "step numstr StartClicked s = startCamera s"
| "step numstr StopClicked s = stopCamera s"
| "step numstr (SnapClicked date_now) s = snapshot (els_video s) (els_overlay s) date_now s"
| "step numstr (CameraChanged i) s =
     (if i < length (sel_options (cameraSelect s)) \<and>
         \<not> opt_disabled (sel_options (cameraSelect s) ! i)
      then cameraSelect_change (s\<lparr>cameraSelect := (cameraSelect s)\<lparr>sel_index := Some i\<rparr>\<rparr>)
      else s)"
| "step numstr MirrorChanged s = applyMirror (s\<lparr>mirrorToggle := \<not> mirrorToggle s\<rparr>)"
| "step numstr ThemeClicked s = themeToggle_click s"
| "step numstr (KeyPressed e_key date_now) s = keydown e_key date_now s"
| "step numstr (StreamSettled settled) s =
     (if 0 < start_at_gum s
      then startCamera_stream settled (grant settled (s\<lparr>start_at_gum := start_at_gum s - 1\<rparr>))
      else s)"
| "step numstr (PlaySettled played videoWidth videoHeight now) s =
     (if 0 < start_at_play s
      then startCamera_play played videoWidth videoHeight now
             (s\<lparr>start_at_play := start_at_play s - 1\<rparr>)
      else s)"
| "step numstr (DetectSettled i settled now) s =
     (if i < length (loop_at_detect s)
      then (let t0 = loop_at_detect s ! i;
                s = s\<lparr>loop_at_detect :=
                        take i (loop_at_detect s) @ drop (Suc i) (loop_at_detect s)\<rparr>
            in case settled of
                 Some result \<Rightarrow> loop_resume numstr t0 result now s
               | None \<Rightarrow> s)
      else s)"
| "step numstr (FrameDue h now) s =
     (if h \<in> raf_pending s then loop now (s\<lparr>raf_pending := raf_pending s - {h}\<rparr>) else s)"

definition run :: "(real \<Rightarrow> string) \<Rightarrow> event list \<Rightarrow> state \<Rightarrow> state" where
  "run numstr evs s = foldl (\<lambda>s e. step numstr e s) s evs"

text \<open>
  Loading the page runs the script once: the variables get their initial values
  (line 21), \<open>init\<close> runs to its first \<open>await\<close> and the handlers are registered. Nothing
  is scheduled, suspended or logged before. The argument is the page as the browser
  built it, with the storage that earlier visits left.
\<close>

definition boot :: "state \<Rightarrow> state" where
  "boot page =
     init (page\<lparr>running := False, rafId := None, stream := None,
                 raf_pending := {}, live_tracks := {},
                 start_at_gum := 0, start_at_play := 0, loop_at_detect := [],
                 effects := []\<rparr>)"

text \<open>A concrete page and a concrete printer, for the examples.\<close>

definition page0 :: state where
  "page0 =
     \<lparr>running = False, rafId = None, stream = None,
      video_srcObject = None, video_transform = '''',
      overlay_width = 300, overlay_height = 150, overlay_content = [],
      overlay_transform = '''',
      moodBadge = '''', cameraSelect = \<lparr>sel_options = [], sel_index = None\<rparr>,
      mirrorToggle = True, topMood = '''', topConf = '''', fpsBar = '''', fpsText = '''',
      facesBar = '''', facesText = '''', emotionList = [], data_theme = None,
      localStorage = Map.empty, raf_counter = 0, raf_pending = {}, live_tracks = {},
      init_at = AwaitLoad, start_at_gum = 0, start_at_play = 0, loop_at_detect = [],
      effects = []\<rparr>"

definition numstr0 :: "real \<Rightarrow> string" where
  "numstr0 x = ''?''"

text \<open>Reading the log: which storage key a call names, and which events toggle the theme
  (a click on the toggle, or the key \<open>t\<close>, which clicks it).\<close>

fun storage_key :: "effect \<Rightarrow> string option" where
  "storage_key (StorageGet k) = Some k"
| "storage_key (StorageSet k v) = Some k"
| "storage_key _ = None"

fun is_get :: "effect \<Rightarrow> bool" where
  "is_get (StorageGet k) = True"
| "is_get _ = False"

fun is_set :: "effect \<Rightarrow> bool" where
  "is_set (StorageSet k v) = True"
| "is_set _ = False"

definition storage_calls :: "state \<Rightarrow> effect list" where
  "storage_calls s = filter (\<lambda>e. storage_key e \<noteq> None) (effects s)"

fun toggles_theme :: "event \<Rightarrow> bool" where
  "toggles_theme ThemeClicked = True"
| "toggles_theme (KeyPressed e_key date_now) = (toLowerCase e_key = ''t'')"
| "toggles_theme _ = False"

definition next_theme :: "state \<Rightarrow> string" where
  "next_theme s = (if data_theme s = Some ''dark'' then ''light'' else ''dark'')"

text \<open>
  What can carry a detection result out of the page. A download carries an image. Every
  other effect carries at most a string, a stream or a camera constraint; such an effect
  is free of results when its strings are the fixed ones of the script.
\<close>

fun is_download :: "effect \<Rightarrow> bool" where
  "is_download (Download name mime w h drawn) = True"
| "is_download _ = False"

fun result_free :: "effect \<Rightarrow> bool" where
  "result_free (StorageGet k) = (k = ''theme'')"
| "result_free (StorageSet k v) = (k = ''theme'' \<and> (v = ''light'' \<or> v = ''dark''))"
| "result_free (Alert m) =
     (m = ''Unable to access camera. Check permissions and that no other app is using it.'' \<or>
      m = ''Failed to load AI models. Check your internet and refresh.'')"
| "result_free (ConsoleError m) = (m = ''Camera error:'' \<or> m = ''Model load error:'')"
| "result_free (ConsoleWarn m) = (m = ''enumerateDevices failed'')"
| "result_free (Download name mime w h drawn) = False"
| "result_free _ = True"

fun takes_snapshot :: "event \<Rightarrow> bool" where
  "takes_snapshot (SnapClicked date_now) = True"
| "takes_snapshot (KeyPressed e_key date_now) = (toLowerCase e_key = ''c'')"
| "takes_snapshot _ = False"

text \<open>The state with everything blanked that the continuation of a frame writes: nine
  properties of page elements and the bookkeeping of the animation frames.\<close>

definition without_frame_output :: "state \<Rightarrow> state" where
  "without_frame_output s =
     s\<lparr>overlay_content := [], facesText := [], facesBar := [], emotionList := [],
       moodBadge := [], topMood := [], topConf := [], fpsText := [], fpsBar := [],
       rafId := None, raf_counter := 0, raf_pending := {}\<rparr>"

section \<open>Concrete inputs\<close>

text \<open>Detection results, streams, device lists, pages and runs that the examples use.\<close>

definition frame1 :: detect_result where
  "frame1 =
     \<lparr>face = Some [\<lparr>face_emotion = Some [\<lparr>emotion = ''sad'', score = 0.2\<rparr>,
                                         \<lparr>emotion = ''happy'', score = 0.75\<rparr>,
                                         \<lparr>emotion = ''angry'', score = 0.05\<rparr>],
                    face_geometry = 1\<rparr>]\<rparr>"

definition frame_no_face :: detect_result where
  "frame_no_face = \<lparr>face = Some []\<rparr>"

definition cam1 :: media_stream where
  "cam1 = \<lparr>stream_id = 1, tracks = [10]\<rparr>"

definition cam2 :: media_stream where
  "cam2 = \<lparr>stream_id = 2, tracks = [20]\<rparr>"

definition started :: state where
  "started =
     run numstr0 [StartClicked, StreamSettled (Some cam1), PlaySettled True 640 480 5]
       (boot page0)"

definition devices0 :: "device_info list" where
  "devices0 =
     [\<lparr>kind = ''audioinput'', deviceId = ''a1'', label = ''Microphone''\<rparr>,
      \<lparr>kind = ''videoinput'', deviceId = ''v1'', label = ''''\<rparr>,
      \<lparr>kind = ''videoinput'', deviceId = ''v2'', label = ''USB Camera''\<rparr>]"

definition devices_no_camera :: "device_info list" where
  "devices_no_camera = [\<lparr>kind = ''audioinput'', deviceId = ''a1'', label = ''Microphone''\<rparr>]"

definition page_visited :: state where
  "page_visited = page0\<lparr>localStorage := [''theme'' \<mapsto> ''dark'', ''visits'' \<mapsto> ''3'']\<rparr>"

definition session :: "event list" where
  "session =
     [LoadSettled True, ThemeClicked, StartClicked, StreamSettled (Some cam1),
      PlaySettled True 640 480 5, DetectSettled 0 (Some frame1) 30, KeyPressed ''T'' 0,
      FrameDue 1 46, SnapClicked 1700000000000, StopClicked]"

definition late_start :: state where
  "late_start =
     run numstr0 [StreamSettled (Some cam1), PlaySettled True 640 480 5]
       (run numstr0 [StartClicked, StopClicked] (boot page0))"

definition double_start :: state where
  "double_start =
     run numstr0
       [StartClicked, StartClicked,
        StreamSettled (Some cam1), PlaySettled True 640 480 5,
        StreamSettled (Some cam2), PlaySettled True 640 480 9,
        DetectSettled 0 (Some frame1) 30, DetectSettled 0 (Some frame1) 40]
       (boot page0)"

definition snap_session :: "event list" where
  "snap_session =
     [StartClicked, StreamSettled (Some cam1), PlaySettled True 640 480 5,
      DetectSettled 0 (Some frame1) 30, SnapClicked 1700000000000]"

section \<open>Facts about the parts\<close>

subsection \<open>The sort\<close>

lemma set_insert_by: "set (insert_by cmp x ys) = insert x (set ys)"
  by (induction ys) auto

lemma set_js_sort: "set (js_sort cmp xs) = set xs"
  by (induction xs) (simp_all add: js_sort_def set_insert_by)

lemma js_sort_Nil_iff: "js_sort cmp xs = [] \<longleftrightarrow> xs = []"
  using set_js_sort [of cmp xs] by (metis set_empty)

lemma descending_insert_by:
  "sorted_wrt (\<lambda>a b. score b \<le> score a) ys \<Longrightarrow>
   sorted_wrt (\<lambda>a b. score b \<le> score a) (insert_by (\<lambda>a b. score b - score a) x ys)"
proof (induction ys)
  case Nil
  then show ?case by simp
next
  case (Cons y ys)
  show ?case
  proof (cases "score y \<le> score x")
    case True
    with Cons.prems show ?thesis by (auto intro: order_trans)
  next
    case False
    with Cons show ?thesis by (auto simp: set_insert_by)
  qed
qed

lemma descending_js_sort:
  "sorted_wrt (\<lambda>a b. score b \<le> score a) (js_sort (\<lambda>a b. score b - score a) xs)"
  by (induction xs) (simp_all add: js_sort_def descending_insert_by)

lemma hd_js_sort_max:
  assumes "es \<noteq> []"
  shows "hd (js_sort (\<lambda>a b. score b - score a) es) \<in> set es"
    and "\<forall>e\<in>set es. score e \<le> score (hd (js_sort (\<lambda>a b. score b - score a) es))"
proof -
  let ?ys = "js_sort (\<lambda>a b. score b - score a) es"
  from assms have ne: "?ys \<noteq> []" by (simp add: js_sort_Nil_iff)
  then obtain t ts where ys: "?ys = t # ts" by (cases ?ys) auto
  have same: "set ?ys = set es" by (rule set_js_sort)
  have "hd ?ys \<in> set ?ys" using ne by (rule hd_in_set)
  then show "hd ?ys \<in> set es" by (simp only: same)
  have "sorted_wrt (\<lambda>a b. score b \<le> score a) (t # ts)"
    using descending_js_sort [of es] by (simp add: ys)
  then have "\<forall>e\<in>set ts. score e \<le> score t" by simp
  moreover have "set es = insert t (set ts)"
    using same by (simp add: ys)
  ultimately show "\<forall>e\<in>set es. score e \<le> score (hd ?ys)" by (simp add: ys)
qed

subsection \<open>The two folds over lists, in closed form\<close>

lemma stop_tracks_eq: "stop_tracks ms s = s\<lparr>live_tracks := live_tracks s - set (tracks ms)\<rparr>"
proof -
  have "foldl (\<lambda>s t. track_stop t s) s ts = s\<lparr>live_tracks := live_tracks s - set ts\<rparr>" for ts
  proof (induction ts arbitrary: s)
    case Nil
    then show ?case by simp
  next
    case (Cons t ts)
    have "live_tracks s - {t} - set ts = live_tracks s - insert t (set ts)" by blast
    then show ?case by (simp add: Cons.IH) (simp add: track_stop_def)
  qed
  then show ?thesis by (simp add: stop_tracks_def)
qed

lemma renderEmotions_eq:
  "renderEmotions numstr (Some es) s =
     s\<lparr>emotionList := (if es = [] then [Muted ''No face detected.'']
                        else map (emotion_row numstr) es)\<rparr>"
proof -
  have "foldl (\<lambda>s e. s\<lparr>emotionList := emotionList s @ [emotion_row numstr e]\<rparr>) s es
        = s\<lparr>emotionList := emotionList s @ map (emotion_row numstr) es\<rparr>" for s
    by (induction es arbitrary: s) simp_all
  note rows = this
  show ?thesis by (simp add: renderEmotions_def rows)
qed

subsection \<open>Printing\<close>

lemma length_str_of_nat: "0 < length (str_of_nat n)"
  by (subst str_of_nat.simps) simp

lemma fixed_digits_Suc_0:
  "fixed_digits (Suc 0) n = str_of_nat (n div 10) @ ''.'' @ [digit_char (n mod 10)]"
proof (cases "n < 10")
  case True
  then have "str_of_nat n = [digit_char n]" and "str_of_nat (n div 10) = ''0''"
    by (simp_all add: str_of_nat.simps [of n] str_of_nat.simps [of 0] digit_char_def)
  with True show ?thesis by (simp add: fixed_digits_def)
next
  case False
  then have m: "str_of_nat n = str_of_nat (n div 10) @ [digit_char (n mod 10)]"
    by (simp add: str_of_nat.simps [of n])
  have "Suc 0 \<le> length (str_of_nat (n div 10))"
    using length_str_of_nat [of "n div 10"] by (simp only: Suc_le_eq)
  then show ?thesis by (simp add: fixed_digits_def m)
qed

lemma fixed_digits_1:
  "fixed_digits 1 n = str_of_nat (n div 10) @ ''.'' @ [digit_char (n mod 10)]"
  by (simp add: fixed_digits_Suc_0)

subsection \<open>Binary64\<close>

text \<open>The exponent is the floor of the logarithm to base 2.\<close>

lemma expo_eq_floor_log:
  assumes "x \<noteq> 0"
  shows "expo x = \<lfloor>Transcendental.log 2 \<bar>x\<bar>\<rfloor>"
proof (cases "1 \<le> \<bar>x\<bar>")
  case True
  define a where "a = nat \<lfloor>\<bar>x\<bar>\<rfloor>"
  define r where "r = \<bar>x\<bar> - real a"
  from True have a: "1 \<le> a" and fl: "\<lfloor>\<bar>x\<bar>\<rfloor> = int a" by (simp_all add: a_def le_nat_iff)
  have r: "0 \<le> r" "r < 1" and x: "\<bar>x\<bar> = real a + r"
    using fl by (simp_all add: r_def) linarith+
  have "\<lfloor>Transcendental.log 2 (real a + r)\<rfloor> =
        \<lfloor>Transcendental.log 2 (real a)\<rfloor>"
    using floor_log_add_eqI [of 2 a r] a r by simp
  moreover have "bitlen (int a) = \<lfloor>Transcendental.log 2 (real a)\<rfloor> + 1"
    using a by (simp add: bitlen_alt_def)
  ultimately show ?thesis using True by (simp add: expo_def fl x [symmetric])
next
  case False
  define y where "y = \<bar>x\<bar>"
  from False assms have y: "0 < y" "y < 1" by (simp_all add: y_def)
  define k where "k = \<lfloor>Transcendental.log 2 y\<rfloor>"
  define j where "j = nat (- k)"
  have "Transcendental.log 2 y < 0" using y by simp
  then have k: "k < 0" by (simp add: k_def floor_less_iff)
  then have kj: "k = - int j" and j: "0 < j" by (simp_all add: j_def)
  have p1: "2 powr real_of_int k = inverse (2 ^ j)"
    using powr_real_of_int [of 2 k] k by (simp add: j_def)
  have p2: "2 powr real_of_int (k + 1) = inverse (2 ^ (j - 1))"
  proof (cases "k + 1 = 0")
    case True
    then have "j = 1" by (simp add: j_def)
    with True show ?thesis by simp
  next
    case False
    with k have "k + 1 < 0" by simp
    moreover from this have "nat (- (k + 1)) = j - 1" by (simp add: j_def)
    ultimately show ?thesis using powr_real_of_int [of 2 "k + 1"] by simp
  qed
  have "\<lfloor>Transcendental.log 2 y\<rfloor> = k" by (simp add: k_def)
  then have "2 powr real_of_int k \<le> y \<and> y < 2 powr real_of_int (k + 1)"
    using y by (subst (asm) floor_log_eq_powr_iff) simp_all
  then have lo: "inverse (2 ^ j) \<le> y" and hi: "y < inverse (2 ^ (j - 1))"
    by (simp_all only: p1 p2)
  define m where "m = \<lceil>1 / y\<rceil>"
  have "1 / y \<le> 2 ^ j" using lo y by (simp add: field_simps)
  then have "m \<le> 2 ^ j" unfolding m_def by (simp add: ceiling_le_iff)
  have "2 ^ (j - 1) < 1 / y" using hi y by (simp add: field_simps)
  then have "2 ^ (j - 1) < real_of_int m" unfolding m_def by linarith
  then have "(2::int) ^ (j - 1) < m" by (metis of_int_less_iff of_int_numeral of_int_power)
  then have lower: "2 ^ (j - 1) \<le> nat (m - 1)" and upper: "nat (m - 1) < 2 ^ j"
    using \<open>m \<le> 2 ^ j\<close> by (simp_all add: le_nat_iff nat_less_iff)
  have "floorlog 2 (nat (m - 1)) \<le> j" using upper by (simp add: floorlog_le_iff)
  moreover have "j \<le> floorlog 2 (nat (m - 1))"
    using lower by (intro floorlog_geI) simp_all
  ultimately have "bitlen (m - 1) = int j" by (simp add: bitlen_def)
  then show ?thesis using False by (simp add: expo_def m_def y_def kj [symmetric] k_def)
qed

text \<open>Rounding keeps a value between 0 and 100 there: 100 is a value of binary64.\<close>

lemma round_even_nonneg: "0 \<le> r \<Longrightarrow> 0 \<le> round_even r"
  by (simp add: round_even_def Let_def)

lemma round_even_le: "r \<le> of_int m \<Longrightarrow> round_even r \<le> m"
proof -
  assume le: "r \<le> of_int m"
  then have fl: "\<lfloor>r\<rfloor> \<le> m" by linarith
  show ?thesis
  proof (cases "\<lfloor>r\<rfloor> = m")
    case True
    then have "r = of_int m" using le of_int_floor_le [of r] by linarith
    then show ?thesis by (simp add: round_even_def)
  next
    case False
    with fl have "\<lfloor>r\<rfloor> + 1 \<le> m" by simp
    then show ?thesis by (simp add: round_even_def Let_def)
  qed
qed

lemma expo_le_6:
  assumes "0 < x" and "x \<le> 100"
  shows "expo x \<le> 6"
proof (cases "1 \<le> x")
  case True
  have "\<lfloor>x\<rfloor> \<le> 100" using assms(2) by linarith
  then have "nat \<lfloor>x\<rfloor> < 128" by linarith
  then have "nat \<lfloor>x\<rfloor> < 2 ^ 7" by simp
  then have "floorlog 2 (nat \<lfloor>x\<rfloor>) \<le> 7" by (simp add: floorlog_le_iff)
  with True assms(1) show ?thesis by (simp add: expo_def bitlen_def)
next
  case False
  with assms(1) show ?thesis
    using bitlen_nonneg [of "\<lceil>1 / x\<rceil> - 1"] by (simp add: expo_def)
qed

lemma round64_upto_100:
  assumes "0 \<le> x" and "x \<le> 100"
  shows "0 \<le> round64 x" and "round64 x \<le> 100"
proof -
  show "0 \<le> round64 x"
    using assms(1) by (simp add: round64_def ulp64_def round_even_nonneg)
  show "round64 x \<le> 100"
  proof (cases "x = 0")
    case True
    then show ?thesis by (simp add: round64_def)
  next
    case False
    with assms have pos: "0 < x" by simp
    define j where "j = nat (52 - max (expo x) (- 1022))"
    have "max (expo x) (- 1022) - 52 < 0" using expo_le_6 [OF pos assms(2)] by simp
    then have u: "ulp64 x = inverse 2 ^ j"
      by (simp add: ulp64_def power_int_def j_def)
    have "x / ulp64 x \<le> of_int (100 * 2 ^ j)"
      using assms(2) by (simp add: u power_inverse field_simps)
    then have "round_even (x / ulp64 x) \<le> 100 * 2 ^ j" by (rule round_even_le)
    then have "real_of_int (round_even (x / ulp64 x)) \<le> 100 * 2 ^ j"
      by (metis of_int_le_iff of_int_mult of_int_numeral of_int_power)
    then have "real_of_int (round_even (x / ulp64 x)) * ulp64 x \<le> 100 * 2 ^ j * ulp64 x"
      by (simp add: u)
    also have "100 * 2 ^ j * ulp64 x = 100"
      by (simp add: u power_inverse field_simps)
    finally show ?thesis using False by (simp add: round64_def)
  qed
qed

text \<open>
  Two values of binary64 whose exact product with 100 would round up to the next tenth,
  and whose binary64 product rounds down: the values nearest to 0.0315 and to 0.0015.
\<close>

lemma pct_of_binary64_near_tie:
  "pct numstr0 (1134907106097365 / 36028797018963968) = ''3.1%''"
  "pct numstr0 (3458764513820541 / 2305843009213693952) = ''0.1%''"
proof -
  have r: "round64 (1134907106097365 / 36028797018963968 * 100) =
             7093169413108531 / 2251799813685248"
    "round64 (3458764513820541 / 2305843009213693952 * 100) =
             5404319552844595 / 36028797018963968"
    by code_simp+
  have t: "toFixed numstr0 1 (7093169413108531 / 2251799813685248) = ''3.1''"
    "toFixed numstr0 1 (5404319552844595 / 36028797018963968) = ''0.1''"
    by code_simp+
  have c: "\<not> 2 ^ 1024 \<le> (7093169413108531 / 2251799813685248 :: real)"
    "\<not> (7093169413108531 / 2251799813685248 :: real) \<le> - (2 ^ 1024)"
    "\<not> 2 ^ 1024 \<le> (5404319552844595 / 36028797018963968 :: real)"
    "\<not> (5404319552844595 / 36028797018963968 :: real) \<le> - (2 ^ 1024)"
    by simp_all
  show "pct numstr0 (1134907106097365 / 36028797018963968) = ''3.1%''"
    "pct numstr0 (3458764513820541 / 2305843009213693952) = ''0.1%''"
    unfolding pct_def Let_def by (simp_all only: r c t if_False append.simps)
qed

lemma pct_unit:
  assumes "0 \<le> v" and "v \<le> 1"
  shows "pct numstr v = fixed_digits 1 (nat \<lfloor>round64 (v * 100) * 10 + 1 / 2\<rfloor>) @ ''%''"
    and "nat \<lfloor>round64 (v * 100) * 10 + 1 / 2\<rfloor> \<le> 1000"
proof -
  from assms have "0 \<le> v * 100" and "v * 100 \<le> 100" by simp_all
  then have p: "0 \<le> round64 (v * 100)" "round64 (v * 100) \<le> 100"
    by (rule round64_upto_100)+
  have big: "(100::real) < 2 ^ 1024" and huge: "(100::real) < 10 ^ 21" by simp_all
  from p big have "\<not> 2 ^ 1024 \<le> round64 (v * 100)"
    and "\<not> round64 (v * 100) \<le> - (2 ^ 1024)" by linarith+
  moreover from p huge have "\<not> round64 (v * 100) < 0"
    and "\<not> 10 ^ 21 \<le> round64 (v * 100)" by linarith+
  ultimately show "pct numstr v =
      fixed_digits 1 (nat \<lfloor>round64 (v * 100) * 10 + 1 / 2\<rfloor>) @ ''%''"
    by (simp add: pct_def toFixed_def Let_def)
  from p have "round64 (v * 100) * 10 + 1 / 2 < 1001" by simp
  then have "\<lfloor>round64 (v * 100) * 10 + 1 / 2\<rfloor> < 1001"
    using floor_less_iff [of "round64 (v * 100) * 10 + 1 / 2" 1001] by simp
  then show "nat \<lfloor>round64 (v * 100) * 10 + 1 / 2\<rfloor> \<le> 1000" by linarith
qed

lemma clamp01_bounds: "0 \<le> clamp01 v" "clamp01 v \<le> 1"
  by (simp_all add: clamp01_def)

subsection \<open>The options that \<open>forEach\<close> appends\<close>

lemma append_cameras_options:
  "sel_options (append_cameras i cs sel) =
     sel_options sel @ map (\<lambda>k. camera_option (i + k) (cs ! k)) [0..<length cs]"
proof (induction cs arbitrary: i sel)
  case Nil
  then show ?case by simp
next
  case (Cons c cs)
  have "map (\<lambda>k. camera_option (i + k) ((c # cs) ! k)) [0..<length (c # cs)] =
        camera_option i c # map (\<lambda>k. camera_option (Suc i + k) (cs ! k)) [0..<length cs]"
    by (simp add: upt_conv_Cons map_Suc_upt [symmetric] del: upt_Suc)
  then show ?case by (simp add: Cons.IH appendOption_def)
qed

subsection \<open>Evaluating the script on concrete input\<close>

lemmas script_defs =
  run_def boot_def init_def page0_def numstr0_def log_def grant_def
  stopCamera_def startCamera_def startCamera_stream_def startCamera_play_def camera_error_def
  applyMirror_def loop_def loop_resume_def draw_overlays_def summarize_def fps_update_def
  renderEmotions_eq requestAnimationFrame_def cancelAnimationFrame_def stop_tracks_eq
  clearRect_def select_value_def

subsection \<open>Storage along a run\<close>

lemmas handler_defs =
  log_def grant_def stopCamera_def startCamera_def startCamera_stream_def startCamera_play_def
  camera_error_def applyMirror_def loop_def loop_resume_def draw_overlays_def summarize_def
  fps_update_def renderEmotions_eq requestAnimationFrame_def cancelAnimationFrame_def
  stop_tracks_eq snapshot_def els_video_def els_overlay_def keydown_def themeToggle_click_def
  cameraSelect_change_def init_load_def init_warmup_def init_failed_def init_permission_def
  init_devices_def listCameras_def listCameras_resume_def

lemma step_storage_calls:
  "storage_calls (step numstr e s) =
     storage_calls s @ (if toggles_theme e then [StorageSet ''theme'' (next_theme s)] else [])"
  by (cases e)
    (simp_all add: storage_calls_def handler_defs Let_def next_theme_def split: option.splits)

lemma step_localStorage:
  "k \<noteq> ''theme'' \<Longrightarrow> localStorage (step numstr e s) k = localStorage s k"
  by (cases e) (simp_all add: handler_defs Let_def split: option.splits)

lemma detect_storage:
  "localStorage (step numstr (DetectSettled i settled now) s) = localStorage s"
  by (simp add: handler_defs Let_def split: option.splits)

lemma run_snoc: "run numstr (evs @ [e]) s = step numstr e (run numstr evs s)"
  by (simp add: run_def)

lemma boot_storage:
  "storage_calls (boot page) = [StorageGet ''theme'']"
  "localStorage (boot page) = localStorage page"
  by (simp_all add: boot_def init_def storage_calls_def log_def Let_def split: option.splits)

lemma run_storage_calls:
  "\<exists>vs. length vs = length (filter toggles_theme evs) \<and>
        storage_calls (run numstr evs (boot page)) =
          StorageGet ''theme'' # map (StorageSet ''theme'') vs"
proof (induction evs rule: rev_induct)
  case Nil
  then show ?case by (simp add: run_def boot_storage)
next
  case (snoc e evs)
  then obtain vs where vs: "length vs = length (filter toggles_theme evs)"
    "storage_calls (run numstr evs (boot page)) = StorageGet ''theme'' # map (StorageSet ''theme'') vs"
    by blast
  show ?case
  proof (cases "toggles_theme e")
    case True
    with vs show ?thesis
      by (intro exI [of _ "vs @ [next_theme (run numstr evs (boot page))]"])
        (simp add: run_snoc step_storage_calls)
  next
    case False
    with vs show ?thesis
      by (intro exI [of _ vs]) (simp add: run_snoc step_storage_calls)
  qed
qed

lemma run_localStorage:
  "k \<noteq> ''theme'' \<Longrightarrow> localStorage (run numstr evs (boot page)) k = localStorage page k"
  by (induction evs rule: rev_induct)
    (simp_all add: run_def boot_storage step_localStorage)

lemma filter_storage_calls:
  "filter is_get (effects s) = filter is_get (storage_calls s)"
  "filter is_set (effects s) = filter is_set (storage_calls s)"
proof -
  have "is_get e \<Longrightarrow> storage_key e \<noteq> None" and "is_set e \<Longrightarrow> storage_key e \<noteq> None" for e
    by (cases e; simp)+
  then show "filter is_get (effects s) = filter is_get (storage_calls s)"
    and "filter is_set (effects s) = filter is_set (storage_calls s)"
    by (auto simp add: storage_calls_def intro: filter_cong)
qed

subsection \<open>What leaves the page along a run, and what a frame writes\<close>

lemma step_effects_result_free:
  "list_all (\<lambda>e. result_free e \<or> is_download e) (effects s) \<Longrightarrow>
   list_all (\<lambda>e. result_free e \<or> is_download e) (effects (step numstr ev s))"
  by (cases ev) (simp_all add: handler_defs Let_def split: option.splits)

lemma step_downloads:
  "length (filter is_download (effects (step numstr ev s))) =
     length (filter is_download (effects s)) + (if takes_snapshot ev then 1 else 0)"
  by (cases ev) (simp_all add: handler_defs Let_def split: option.splits)

lemma step_theme_value:
  "localStorage (step numstr ev s) ''theme'' \<in>
     {localStorage s ''theme'', Some ''light'', Some ''dark''}"
  by (cases ev) (simp_all add: handler_defs Let_def split: option.splits)

lemma boot_effects: "effects (boot page) = [StorageGet ''theme'', HumanLoad]"
  by (simp add: boot_def init_def log_def Let_def split: option.splits)

lemma run_effects_result_free:
  "list_all (\<lambda>e. result_free e \<or> is_download e) (effects (run numstr evs (boot page)))"
  by (induction evs rule: rev_induct)
    (simp_all add: run_snoc step_effects_result_free, simp add: run_def boot_effects)

lemma run_downloads:
  "length (filter is_download (effects (run numstr evs (boot page)))) =
     length (filter takes_snapshot evs)"
  by (induction evs rule: rev_induct)
    (simp_all add: run_snoc step_downloads, simp add: run_def boot_effects)

lemma run_theme_value:
  "localStorage (run numstr evs (boot page)) ''theme'' \<in>
     {localStorage page ''theme'', Some ''light'', Some ''dark''}"
proof (induction evs rule: rev_induct)
  case Nil
  then show ?case by (simp add: run_def boot_storage)
next
  case (snoc ev evs)
  then show ?case
    using step_theme_value [of numstr ev "run numstr evs (boot page)"]
    by (auto simp add: run_snoc)
qed

lemma loop_resume_writes:
  "effects (loop_resume numstr t0 result now s) = effects s"
  "without_frame_output (loop_resume numstr t0 result now s) = without_frame_output s"
  by (simp_all add: without_frame_output_def loop_resume_def requestAnimationFrame_def
      fps_update_def summarize_def renderEmotions_eq draw_overlays_def Let_def)

lemma detect_effects:
  "effects (step numstr (DetectSettled i settled now) s) = effects s"
  by (simp add: handler_defs Let_def split: option.splits)

subsection \<open>\<open>stopCamera\<close> and the guard of \<open>loop\<close>\<close>

text \<open>
  When \<open>stopCamera\<close> returns, \<open>running\<close> is false, \<open>rafId\<close> and \<open>stream\<close> are null and no
  track of the stream it held is live; a call of \<open>loop\<close> that finds \<open>running\<close> false does
  nothing.
\<close>

lemma stopCamera_post:
  "running (stopCamera s) = False"
  "rafId (stopCamera s) = None"
  "stream (stopCamera s) = None"
  "stream s = Some ms \<Longrightarrow> live_tracks (stopCamera s) \<inter> set (tracks ms) = {}"
  "\<not> running s \<Longrightarrow> loop now s = s"
  by (auto simp add: stopCamera_def stop_tracks_eq cancelAnimationFrame_def Let_def loop_def
      split: option.splits)

subsection \<open>What one frame writes\<close>

lemma loop_resume_summary:
  "moodBadge (loop_resume numstr t0 result now s) =
     moodBadge (summarize numstr result (draw_overlays result s))"
  "topMood (loop_resume numstr t0 result now s) =
     topMood (summarize numstr result (draw_overlays result s))"
  "topConf (loop_resume numstr t0 result now s) =
     topConf (summarize numstr result (draw_overlays result s))"
  "emotionList (loop_resume numstr t0 result now s) =
     emotionList (summarize numstr result (draw_overlays result s))"
  "facesBar (loop_resume numstr t0 result now s) =
     facesBar (summarize numstr result (draw_overlays result s))"
  by (simp_all add: loop_resume_def requestAnimationFrame_def fps_update_def Let_def)

lemma summarize_top:
  assumes "face result = Some (f # fs)" and "face_emotion f = Some es" and "es \<noteq> []"
  shows "moodBadge (summarize numstr result s) =
           ''Mood: '' @ emotion (hd (js_sort (\<lambda>a b. score b - score a) es)) @ '' ('' @
             pct numstr (score (hd (js_sort (\<lambda>a b. score b - score a) es))) @ '')''"
    and "topMood (summarize numstr result s) =
           emotion (hd (js_sort (\<lambda>a b. score b - score a) es))"
    and "topConf (summarize numstr result s) =
           pct numstr (clamp01 (score (hd (js_sort (\<lambda>a b. score b - score a) es))))"
  using assms by (simp_all add: summarize_def renderEmotions_eq Let_def)

lemma summarize_empty:
  assumes "face result = None \<or> face result = Some [] \<or>
           (\<exists>f fs. face result = Some (f # fs) \<and> (face_emotion f = None \<or> face_emotion f = Some []))"
  shows "emotionList (summarize numstr result s) = [Muted ''No face detected.'']"
    and "moodBadge (summarize numstr result s) = ''Mood: '' @ em_dash"
    and "topMood (summarize numstr result s) = em_dash"
    and "topConf (summarize numstr result s) = ''0%''"
  using assms by (auto simp add: summarize_def renderEmotions_eq Let_def)

section \<open>The claims\<close>

text \<open>
  C1. When the first face of a detection result has a non-empty emotion list, the frame
  writes into the mood badge, the top-mood label and the confidence bar an emotion of
  that list whose score no other emotion of the list exceeds: the badge reads
  \<open>Mood: <emotion> (<pct of its score>)\<close>, the label is the emotion, the bar's width
  is \<open>pct\<close> of the score clamped to the unit interval. For a score between 0 and 1,
  \<open>pct\<close> prints the binary64 product of the score and 100, rounded to tenths, with one
  decimal and a percent sign.
\<close>

theorem mood_badge_shows_top_emotion:
  assumes "face result = Some (f # fs)" and "face_emotion f = Some es" and "es \<noteq> []"
  shows "\<exists>top\<in>set es.
           (\<forall>e\<in>set es. score e \<le> score top) \<and>
           moodBadge (loop_resume numstr t0 result now s) =
             ''Mood: '' @ emotion top @ '' ('' @ pct numstr (score top) @ '')'' \<and>
           topMood (loop_resume numstr t0 result now s) = emotion top \<and>
           topConf (loop_resume numstr t0 result now s) = pct numstr (clamp01 (score top)) \<and>
           (0 \<le> score top \<and> score top \<le> 1 \<longrightarrow>
              pct numstr (score top) =
                str_of_nat (nat \<lfloor>round64 (score top * 100) * 10 + 1 / 2\<rfloor> div 10) @ ''.'' @
                [digit_char (nat \<lfloor>round64 (score top * 100) * 10 + 1 / 2\<rfloor> mod 10)] @
                ''%'')"
proof (intro bexI conjI)
  let ?top = "hd (js_sort (\<lambda>a b. score b - score a) es)"
  show "?top \<in> set es" and "\<forall>e\<in>set es. score e \<le> score ?top"
    using hd_js_sort_max [OF assms(3)] by simp_all
  show "moodBadge (loop_resume numstr t0 result now s) =
          ''Mood: '' @ emotion ?top @ '' ('' @ pct numstr (score ?top) @ '')''"
    by (simp only: loop_resume_summary summarize_top [OF assms])
  show "topMood (loop_resume numstr t0 result now s) = emotion ?top"
    by (simp only: loop_resume_summary summarize_top [OF assms])
  show "topConf (loop_resume numstr t0 result now s) = pct numstr (clamp01 (score ?top))"
    by (simp only: loop_resume_summary summarize_top [OF assms])
  show "0 \<le> score ?top \<and> score ?top \<le> 1 \<longrightarrow>
          pct numstr (score ?top) =
            str_of_nat (nat \<lfloor>round64 (score ?top * 100) * 10 + 1 / 2\<rfloor> div 10) @ ''.'' @
            [digit_char (nat \<lfloor>round64 (score ?top * 100) * 10 + 1 / 2\<rfloor> mod 10)] @
            ''%''"
    using pct_unit(1) [of "score ?top" numstr] by (simp add: fixed_digits_Suc_0)
qed

theorem mood_badge_shows_top_emotion_witness:
  "moodBadge (loop_resume numstr0 0 frame1 40 page0) = ''Mood: happy (75.0%)'' \<and>
   topMood (loop_resume numstr0 0 frame1 40 page0) = ''happy'' \<and>
   topConf (loop_resume numstr0 0 frame1 40 page0) = ''75.0%'' \<and>
   (\<exists>top\<in>set [\<lparr>emotion = ''sad'', score = 0.2\<rparr>,
                 \<lparr>emotion = ''happy'', score = 0.75\<rparr>, \<lparr>emotion = ''angry'', score = 0.05\<rparr>].
      (\<forall>e\<in>set [\<lparr>emotion = ''sad'', score = 0.2\<rparr>,
                 \<lparr>emotion = ''happy'', score = 0.75\<rparr>, \<lparr>emotion = ''angry'', score = 0.05\<rparr>].
          score e \<le> score top) \<and>
       moodBadge (loop_resume numstr0 0 frame1 40 page0) =
         ''Mood: '' @ emotion top @ '' ('' @ pct numstr0 (score top) @ '')'')"
proof -
  have f: "face frame1 = Some [\<lparr>face_emotion = Some [\<lparr>emotion = ''sad'', score = 0.2\<rparr>,
                 \<lparr>emotion = ''happy'', score = 0.75\<rparr>, \<lparr>emotion = ''angry'', score = 0.05\<rparr>],
               face_geometry = 1\<rparr>]"
    by (simp add: frame1_def)
  have e: "face_emotion \<lparr>face_emotion = Some [\<lparr>emotion = ''sad'', score = 0.2\<rparr>,
                 \<lparr>emotion = ''happy'', score = 0.75\<rparr>, \<lparr>emotion = ''angry'', score = 0.05\<rparr>],
               face_geometry = 1\<rparr> = Some [\<lparr>emotion = ''sad'', score = 0.2\<rparr>,
                 \<lparr>emotion = ''happy'', score = 0.75\<rparr>, \<lparr>emotion = ''angry'', score = 0.05\<rparr>]"
    by simp
  have n: "[\<lparr>emotion = ''sad'', score = 0.2\<rparr>,
                 \<lparr>emotion = ''happy'', score = 0.75\<rparr>, \<lparr>emotion = ''angry'', score = 0.05::real\<rparr>] \<noteq> []"
    by simp
  have r: "round64 75 = 75" by code_simp
  have t: "toFixed numstr0 (Suc 0) 75 = ''75.0''" by code_simp
  have a: "pct numstr0 (3 / 4) = ''75.0%''" by (simp add: pct_def r t)
  have b: "clamp01 (3 / 4) = 3 / 4" by (simp add: clamp01_def)
  have vals: "moodBadge (loop_resume numstr0 0 frame1 40 page0) = ''Mood: happy (75.0%)''"
     "topMood (loop_resume numstr0 0 frame1 40 page0) = ''happy''"
     "topConf (loop_resume numstr0 0 frame1 40 page0) = ''75.0%''"
    by (simp_all add: loop_resume_summary summarize_def renderEmotions_eq Let_def frame1_def
        js_sort_def a b)
  from mood_badge_shows_top_emotion [OF f e n, of numstr0 0 40 page0] vals
  show ?thesis by blast
qed

text \<open>
  C9. A frame whose result has no face list, an empty face list, or a first face with no
  emotion list or an empty one, leaves the page in one and the same empty state: the
  emotion list holds the single message \<open>No face detected.\<close>, the badge reads
  \<open>Mood: \<close> followed by a dash, the top-mood label is the dash, and the
  confidence bar has width \<open>0%\<close>.
\<close>

theorem empty_frame_gives_empty_state:
  assumes "face result = None \<or> face result = Some [] \<or>
           (\<exists>f fs. face result = Some (f # fs) \<and>
                    (face_emotion f = None \<or> face_emotion f = Some []))"
  shows "emotionList (loop_resume numstr t0 result now s) = [Muted ''No face detected.''] \<and>
         moodBadge (loop_resume numstr t0 result now s) = ''Mood: '' @ em_dash \<and>
         topMood (loop_resume numstr t0 result now s) = em_dash \<and>
         topConf (loop_resume numstr t0 result now s) = ''0%''"
  by (simp only: loop_resume_summary summarize_empty [OF assms])

theorem empty_frame_gives_empty_state_witness:
  "face frame_no_face = Some [] \<and>
   emotionList (loop_resume numstr0 0 frame_no_face 40 (loop_resume numstr0 0 frame1 20 page0))
     = [Muted ''No face detected.''] \<and>
   moodBadge (loop_resume numstr0 0 frame_no_face 40 (loop_resume numstr0 0 frame1 20 page0))
     = [CHR ''M'', CHR ''o'', CHR ''o'', CHR ''d'', CHR '':'', CHR '' '', CHR 0xE2, CHR 0x80, CHR 0x94] \<and>
   topMood (loop_resume numstr0 0 frame_no_face 40 (loop_resume numstr0 0 frame1 20 page0))
     = [CHR 0xE2, CHR 0x80, CHR 0x94] \<and>
   topConf (loop_resume numstr0 0 frame_no_face 40 (loop_resume numstr0 0 frame1 20 page0)) = ''0%''"
proof -
  have f: "face frame_no_face = Some []" by (simp add: frame_no_face_def)
  then have h: "face frame_no_face = None \<or> face frame_no_face = Some [] \<or>
           (\<exists>f fs. face frame_no_face = Some (f # fs) \<and>
                    (face_emotion f = None \<or> face_emotion f = Some []))" by simp
  from empty_frame_gives_empty_state [OF h, of numstr0 0 40 "loop_resume numstr0 0 frame1 20 page0"] f
  show ?thesis by (simp add: em_dash_def)
qed

text \<open>
  C10. \<open>clamp01\<close> returns a value between 0 and 1 for every real input. The
  confidence bar's width after a frame is either \<open>0%\<close> or a number of tenths
  between 0 and 1000 printed with one decimal, that is a percentage between 0.0 and
  100.0. The widths of the faces bar and of the frame-rate bar are the printed form
  of a number that is at most 100, for every number of faces and every frame
  duration.
\<close>

theorem bar_widths_within_bounds:
  "(0 \<le> clamp01 v \<and> clamp01 v \<le> 1) \<and>
   (topConf (loop_resume numstr t0 result now s) = ''0%'' \<or>
    (\<exists>n. n \<le> 1000 \<and>
         topConf (loop_resume numstr t0 result now s) =
           str_of_nat (n div 10) @ ''.'' @ [digit_char (n mod 10)] @ ''%'')) \<and>
   (\<exists>w. 0 \<le> w \<and> w \<le> 100 \<and>
        facesBar (loop_resume numstr t0 result now s) = num_to_string numstr w @ ''%'') \<and>
   (\<exists>w. w \<le> 100 \<and>
        fpsBar (loop_resume numstr t0 result now s) = num_to_string numstr w @ ''%'')"
proof (intro conjI)
  show "0 \<le> clamp01 v" and "clamp01 v \<le> 1" by (rule clamp01_bounds)+
  show "topConf (loop_resume numstr t0 result now s) = ''0%'' \<or>
    (\<exists>n. n \<le> 1000 \<and>
         topConf (loop_resume numstr t0 result now s) =
           str_of_nat (n div 10) @ ''.'' @ [digit_char (n mod 10)] @ ''%'')"
  proof -
    have "topConf (summarize numstr result s') = ''0%'' \<or>
          (\<exists>v. topConf (summarize numstr result s') = pct numstr (clamp01 v))" for s'
      by (auto simp add: summarize_def renderEmotions_eq Let_def)
    moreover have "\<exists>n. n \<le> 1000 \<and> pct numstr (clamp01 v) =
           str_of_nat (n div 10) @ ''.'' @ [digit_char (n mod 10)] @ ''%''" for v
      using pct_unit [where v = "clamp01 v"] clamp01_bounds [of v]
      by (auto simp add: fixed_digits_Suc_0)
    ultimately show ?thesis by (simp only: loop_resume_summary) metis
  qed
  show "\<exists>w. 0 \<le> w \<and> w \<le> 100 \<and>
        facesBar (loop_resume numstr t0 result now s) = num_to_string numstr w @ ''%''"
  proof -
    have "facesBar (summarize numstr result s') =
            num_to_string numstr (min 100 (real (length (case face result of Some fs \<Rightarrow> fs | None \<Rightarrow> [])) / 5 * 100)) @ ''%''" for s'
      by (simp add: summarize_def renderEmotions_eq Let_def)
    moreover have "0 \<le> min 100 (real k / 5 * 100)" "min 100 (real k / 5 * 100) \<le> 100" for k
      by simp_all
    ultimately show ?thesis by (simp only: loop_resume_summary) blast
  qed
  show "\<exists>w. w \<le> 100 \<and>
        fpsBar (loop_resume numstr t0 result now s) = num_to_string numstr w @ ''%''"
  proof -
    have cap: "\<exists>w. w \<le> 100 \<and>
                 num_to_string numstr (min 100 x) @ ''%'' = num_to_string numstr w @ ''%''"
      for x :: real
      by (rule exI [of _ "min 100 x"]) simp
    show ?thesis
    proof (cases "now - t0 = 0")
      case True
      then have e: "fpsBar (loop_resume numstr t0 result now s) =
                      num_to_string numstr 100 @ ''%''"
        by (simp add: loop_resume_def requestAnimationFrame_def fps_update_def Let_def)
      show ?thesis unfolding e by (rule exI [of _ 100]) simp
    next
      case False
      then have e: "fpsBar (loop_resume numstr t0 result now s) =
                      num_to_string numstr (min 100 (1000 / (now - t0) / 60 * 100)) @ ''%''"
        unfolding loop_resume_def requestAnimationFrame_def fps_update_def Let_def by simp
      show ?thesis unfolding e by (rule cap)
    qed
  qed
qed

text \<open>
  C2. A call of \<open>loop\<close> that finds \<open>running\<close> true calls the detector once, on the
  video element, and is suspended once. When the detector has answered, the rest of
  the iteration calls the detector no more; its \<open>clearRect\<close> covers the whole overlay
  and empties it, so that the overlay then shows the drawing of this frame's result
  and nothing of an earlier frame.
\<close>

theorem frame_detects_once_then_clears:
  assumes "running s"
  shows "effects (loop now s) = effects s @ [HumanDetect (video_srcObject s)] \<and>
         loop_at_detect (loop now s) = loop_at_detect s @ [now] \<and>
         effects (loop_resume numstr t0 result now' s') = effects s' \<and>
         clearRect 0 0 (real (overlay_width s')) (real (overlay_height s'))
           (overlay_width s') (overlay_height s') (overlay_content s') = [] \<and>
         overlay_content (loop_resume numstr t0 result now' s') =
           [DrawCanvas, DrawFace (face result)]"
proof (intro conjI)
  show "effects (loop now s) = effects s @ [HumanDetect (video_srcObject s)]"
    and "loop_at_detect (loop now s) = loop_at_detect s @ [now]"
    using assms by (simp_all add: loop_def log_def Let_def)
  show cleared: "clearRect 0 0 (real (overlay_width s')) (real (overlay_height s'))
           (overlay_width s') (overlay_height s') (overlay_content s') = []"
    by (simp add: clearRect_def)
  have "effects (summarize numstr result x) = effects x"
    and "overlay_content (summarize numstr result x) = overlay_content x" for x
    by (simp_all add: summarize_def renderEmotions_eq Let_def)
  then show "effects (loop_resume numstr t0 result now' s') = effects s'"
    and "overlay_content (loop_resume numstr t0 result now' s') =
           [DrawCanvas, DrawFace (face result)]"
    by (simp_all add: loop_resume_def requestAnimationFrame_def fps_update_def Let_def
        draw_overlays_def cleared)
qed

theorem frame_detects_once_then_clears_witness:
  "running started \<and>
   effects (loop 50 started) = effects started @ [HumanDetect (Some cam1)] \<and>
   overlay_content (loop_resume numstr0 5 frame1 20 started) = [DrawCanvas, DrawFace (face frame1)] \<and>
   overlay_content (loop_resume numstr0 20 frame_no_face 40 (loop_resume numstr0 5 frame1 20 started))
     = [DrawCanvas, DrawFace (Some [])]"
proof -
  have r: "running started" and v: "video_srcObject started = Some cam1"
    by (simp_all add: started_def script_defs cam1_def Let_def)
  have f: "face frame_no_face = Some []" by (simp add: frame_no_face_def)
  from frame_detects_once_then_clears [OF r, of 50 numstr0 5 frame1 20 started]
    frame_detects_once_then_clears [OF r, of 50 numstr0 20 frame_no_face 40
      "loop_resume numstr0 5 frame1 20 started"] r v f
  show ?thesis by simp
qed

text \<open>
  C8. Calling \<open>stopCamera\<close> a second time changes nothing: the state after two calls
  is the state after one, in \<open>running\<close>, \<open>rafId\<close>, \<open>stream\<close> and everything else.
\<close>

theorem stopCamera_idempotent: "stopCamera (stopCamera s) = stopCamera s"
  by (simp add: stopCamera_def stop_tracks_eq cancelAnimationFrame_def Let_def
      split: option.splits)

text \<open>
  C7. With both elements present, \<open>snapshot\<close> does one thing: it downloads, under the
  name \<open>mood-<timestamp>.png\<close>, the PNG of a fresh canvas that has the overlay's
  width and height, on which the video frame was drawn scaled to that size and then the
  overlay at the origin. With either element missing it changes nothing.
\<close>

theorem snapshot_composes_and_downloads:
  "snapshot (Some v) (Some ov) date_now s =
     log (Download (''mood-'' @ str_of_nat date_now @ ''.png'') ''image/png''
            (c_width ov) (c_height ov)
            [DrawVideo (v_srcObject v) 0 0 (c_width ov) (c_height ov),
             DrawOverlay (c_width ov) (c_height ov) (c_content ov) 0 0]) s \<and>
   snapshot None overlay date_now s = s \<and>
   snapshot video None date_now s = s"
  by (simp add: snapshot_def Let_def split: option.splits)

text \<open>
  C6. When the devices have been enumerated, \<open>listCameras\<close> replaces the options of the
  camera select. With no device of kind \<open>videoinput\<close> the select has the one disabled
  option \<open>No camera found\<close>. Otherwise it has one enabled option for each such device,
  in order: its value is the device's id, its text is the device's label or, for an
  empty label, \<open>Camera\<close> and the position counted from one.
\<close>

theorem listCameras_fills_select:
  "(let cams = filter (\<lambda>d. kind d = ''videoinput'') devices;
        opts = sel_options (cameraSelect (listCameras_resume (Some devices) s))
    in (cams = [] \<longrightarrow>
          opts = [\<lparr>opt_value = None, opt_text = ''No camera found'', opt_disabled = True\<rparr>]) \<and>
       (cams \<noteq> [] \<longrightarrow>
          length opts = length cams \<and>
          (\<forall>i<length cams.
             opts ! i =
               \<lparr>opt_value = Some (deviceId (cams ! i)),
                opt_text = (if label (cams ! i) = '''' then ''Camera '' @ str_of_nat (i + 1)
                            else label (cams ! i)),
                opt_disabled = False\<rparr>)))"
  by (simp add: listCameras_resume_def Let_def appendOption_def append_cameras_options
      camera_option_def)

theorem listCameras_fills_select_witness:
  "sel_options (cameraSelect (listCameras_resume (Some devices0) started)) =
     [\<lparr>opt_value = Some ''v1'', opt_text = ''Camera 1'', opt_disabled = False\<rparr>,
      \<lparr>opt_value = Some ''v2'', opt_text = ''USB Camera'', opt_disabled = False\<rparr>] \<and>
   sel_options (cameraSelect (listCameras_resume (Some devices_no_camera)
     (listCameras_resume (Some devices0) started))) =
     [\<lparr>opt_value = None, opt_text = ''No camera found'', opt_disabled = True\<rparr>]"
proof -
  have two: "filter (\<lambda>d. kind d = ''videoinput'') devices0 =
          [\<lparr>kind = ''videoinput'', deviceId = ''v1'', label = ''''\<rparr>,
           \<lparr>kind = ''videoinput'', deviceId = ''v2'', label = ''USB Camera''\<rparr>]"
    and none: "filter (\<lambda>d. kind d = ''videoinput'') devices_no_camera = []"
    by (simp_all add: devices0_def devices_no_camera_def)
  from listCameras_fills_select [of devices0 started]
  have "length (sel_options (cameraSelect (listCameras_resume (Some devices0) started))) = 2"
    and "sel_options (cameraSelect (listCameras_resume (Some devices0) started)) ! 0 =
           \<lparr>opt_value = Some ''v1'', opt_text = ''Camera 1'', opt_disabled = False\<rparr>"
    and "sel_options (cameraSelect (listCameras_resume (Some devices0) started)) ! 1 =
           \<lparr>opt_value = Some ''v2'', opt_text = ''USB Camera'', opt_disabled = False\<rparr>"
    by (simp_all add: two Let_def str_of_nat.simps digit_char_def)
  then have a: "sel_options (cameraSelect (listCameras_resume (Some devices0) started)) =
     [\<lparr>opt_value = Some ''v1'', opt_text = ''Camera 1'', opt_disabled = False\<rparr>,
      \<lparr>opt_value = Some ''v2'', opt_text = ''USB Camera'', opt_disabled = False\<rparr>]"
    by (simp add: list_eq_iff_nth_eq less_Suc_eq numeral_2_eq_2)
  from listCameras_fills_select [of devices_no_camera "listCameras_resume (Some devices0) started"]
  have b: "sel_options (cameraSelect (listCameras_resume (Some devices_no_camera)
     (listCameras_resume (Some devices0) started))) =
     [\<lparr>opt_value = None, opt_text = ''No camera found'', opt_disabled = True\<rparr>]"
    by (simp add: none Let_def)
  from a b show ?thesis by simp
qed

text \<open>
  C5. No detection result is persisted, except in the image that a snapshot downloads.
  Along every run of the program from the loading of the page: every effect in the log
  is free of results or is a download, and there are as many downloads as snapshots
  were taken; every storage call names the key \<open>theme\<close>, there is exactly one read, the
  one of \<open>init\<close>, and as many writes as the theme was toggled, each of \<open>light\<close> or
  \<open>dark\<close>; every other key of the storage keeps the value it had when the page was
  loaded, and \<open>theme\<close> holds that value, \<open>light\<close> or \<open>dark\<close>. The continuation of a
  frame, which receives the detection result, logs no effect, leaves the storage as it
  is, and writes nothing but properties of page elements and the bookkeeping of the
  animation frames.
\<close>

theorem results_leave_only_by_snapshot:
  "(\<forall>e\<in>set (effects (run numstr evs (boot page))). result_free e \<or> is_download e) \<and>
   length (filter is_download (effects (run numstr evs (boot page)))) =
     length (filter takes_snapshot evs) \<and>
   (\<forall>e\<in>set (effects (run numstr evs (boot page))).
       storage_key e = None \<or> storage_key e = Some ''theme'') \<and>
   filter is_get (effects (run numstr evs (boot page))) = [StorageGet ''theme''] \<and>
   length (filter is_set (effects (run numstr evs (boot page)))) =
     length (filter toggles_theme evs) \<and>
   (\<forall>k. k \<noteq> ''theme'' \<longrightarrow>
        localStorage (run numstr evs (boot page)) k = localStorage page k) \<and>
   localStorage (run numstr evs (boot page)) ''theme'' \<in>
     {localStorage page ''theme'', Some ''light'', Some ''dark''} \<and>
   effects (loop_resume numstr t0 result now s) = effects s \<and>
   without_frame_output (loop_resume numstr t0 result now s) = without_frame_output s \<and>
   effects (step numstr (DetectSettled i settled now) s) = effects s \<and>
   localStorage (step numstr (DetectSettled i settled now) s) = localStorage s"
proof -
  let ?s = "run numstr evs (boot page)"
  obtain vs where n: "length vs = length (filter toggles_theme evs)"
    and calls: "storage_calls ?s = StorageGet ''theme'' # map (StorageSet ''theme'') vs"
    using run_storage_calls by blast
  have "storage_key e = None \<or> storage_key e = Some ''theme''" if "e \<in> set (effects ?s)" for e
  proof (cases "storage_key e = None")
    case False
    with that have "e \<in> set (storage_calls ?s)" by (simp add: storage_calls_def)
    then show ?thesis by (auto simp add: calls)
  qed simp
  then have keys: "\<forall>e\<in>set (effects ?s). storage_key e = None \<or> storage_key e = Some ''theme''"
    by blast
  have free: "\<forall>e\<in>set (effects ?s). result_free e \<or> is_download e"
    using run_effects_result_free [of numstr evs page] by (simp add: list_all_iff)
  have gets: "filter is_get (effects ?s) = [StorageGet ''theme'']"
    by (simp add: filter_storage_calls calls filter_map comp_def)
  have sets: "length (filter is_set (effects ?s)) = length (filter toggles_theme evs)"
    by (simp add: filter_storage_calls calls filter_map comp_def n)
  have others: "\<forall>k. k \<noteq> ''theme'' \<longrightarrow> localStorage ?s k = localStorage page k"
    by (intro allI impI) (rule run_localStorage)
  show ?thesis
    by (intro conjI free run_downloads keys gets sets others run_theme_value
        loop_resume_writes detect_effects detect_storage)
qed

theorem results_leave_only_by_snapshot_witness:
  "StorageSet ''theme'' ''light'' \<in> set (effects (run numstr0 session (boot page_visited))) \<and>
   result_free (StorageSet ''theme'' ''light'') \<and>
   storage_key (StorageSet ''theme'' ''light'') = Some ''theme'' \<and>
   length (filter is_set (effects (run numstr0 session (boot page_visited)))) = 2 \<and>
   length (filter is_download (effects (run numstr0 session (boot page_visited)))) = 1 \<and>
   ''visits'' \<noteq> ''theme'' \<and>
   localStorage (run numstr0 session (boot page_visited)) ''visits'' = Some ''3'' \<and>
   localStorage (run numstr0 session (boot page_visited)) ''theme'' = Some ''dark''"
proof -
  have toggled: "length (filter toggles_theme session) = 2"
    and snapped: "length (filter takes_snapshot session) = 1"
    by (simp_all add: session_def toLowerCase_def lower_char_def)
  have logged: "StorageSet ''theme'' ''light'' \<in> set (effects (run numstr0 session (boot page_visited)))"
    and theme: "localStorage (run numstr0 session (boot page_visited)) ''theme'' = Some ''dark''"
    by (simp_all add: session_def page_visited_def script_defs handler_defs Let_def cam1_def
        frame1_def toLowerCase_def lower_char_def)
  have before: "localStorage page_visited ''visits'' = Some ''3''"
    by (simp add: page_visited_def)
  from results_leave_only_by_snapshot [of numstr0 session page_visited] toggled snapped logged
    theme before
  show ?thesis by simp
qed

text \<open>
  The exception. A frame draws the faces of its result on the overlay, and a snapshot
  downloads the overlay: in the run below the file \<open>mood-1700000000000.png\<close> holds the
  drawing of the faces of \<open>frame1\<close>.
\<close>

theorem snapshot_downloads_detection_drawing:
  "effects (run numstr0 snap_session (boot page0)) =
     [StorageGet ''theme'', HumanLoad, GetUserMedia UserFacing, HumanDetect (Some cam1),
      Download ''mood-1700000000000.png'' ''image/png'' 640 480
        [DrawVideo (Some cam1) 0 0 640 480,
         DrawOverlay 640 480 [DrawCanvas, DrawFace (face frame1)] 0 0]] \<and>
   \<not> list_all result_free (effects (run numstr0 snap_session (boot page0)))"
  by (simp add: snap_session_def script_defs snapshot_def els_video_def els_overlay_def Let_def
      cam1_def frame1_def str_of_nat.simps digit_char_def)

text \<open>
  C3. The claim is that after \<open>stopCamera\<close> has returned no iteration of the loop
  calls the detector until \<open>startCamera\<close> is called again. \<open>stopCamera\<close> does not reach
  a call of \<open>startCamera\<close> that is suspended at its request for a stream: in the run
  below the user clicks Start and then Stop before the stream is granted. After the
  click on Stop \<open>running\<close> is false and \<open>stream\<close> is null; when the stream arrives and
  the video plays, the suspended call sets \<open>stream\<close> and \<open>running\<close> and calls \<open>loop\<close>,
  which calls the detector, with the camera's track live.
\<close>

theorem stop_before_stream_still_starts:
  "running (run numstr0 [StartClicked, StopClicked] (boot page0)) = False \<and>
   stream (run numstr0 [StartClicked, StopClicked] (boot page0)) = None \<and>
   running late_start \<and>
   stream late_start = Some cam1 \<and>
   live_tracks late_start = {10} \<and>
   effects late_start =
     effects (run numstr0 [StartClicked, StopClicked] (boot page0)) @ [HumanDetect (Some cam1)]"
  by (simp add: late_start_def script_defs Let_def cam1_def)

text \<open>
  C4. The claim is that at most one capture session is active at any time, with at
  most one animation frame pending. In the run below the user clicks Start twice
  before the first stream is granted. The \<open>stopCamera\<close> of the second call finds
  nothing to stop; both calls then get a stream and start a loop. At the end the
  variable \<open>stream\<close> holds the second stream while the track of the first is still
  live, and two animation frames are pending, of which \<open>rafId\<close> names one.
\<close>

theorem double_start_leaves_two_sessions:
  "stream double_start = Some cam2 \<and>
   live_tracks double_start = {10, 20} \<and>
   raf_pending double_start = {1, 2} \<and>
   card (raf_pending double_start) = 2 \<and>
   rafId double_start = Some 2"
  by (simp add: double_start_def script_defs Let_def cam1_def cam2_def frame1_def numeral_2_eq_2 insert_commute)

end
